theory Spec2Isabelle
  imports Main "HOL-Library.AList"
begin

section \<open>JavaScript values used by the sources\<close>

text \<open>
  Strings are byte strings; \<open>toLowerCase\<close>, \<open>trim\<close> and the digit parsers act on the
  ASCII range, which is where transaction hashes, addresses, commands and environment
  values live. A JavaScript \<open>number\<close> that the sources only count with is an \<open>int\<close>;
  where \<open>NaN\<close> can arise (\<open>parseInt\<close>, and the free-message quota computed from it)
  it is the value \<open>NaN\<close> of \<open>number\<close>.
  \<open>bigint\<close> is \<open>int\<close>. Time stamps are integers (milliseconds, or seconds where the
  source divides by 1000).
\<close>

datatype number = NaN | Num int

text \<open>A property of an object literal: missing, present holding \<open>undefined\<close>, or
  present holding a value. Object spread copies every own property, also one that holds
  \<open>undefined\<close>.\<close>

datatype 'a property = Absent | Undefined | Present 'a

text \<open>The outcome of awaiting a promise: it rejects (the thrown message, when the
  thrown value is an \<open>Error\<close>) or resolves.\<close>

datatype 'a awaited = Rejected "string option" | Resolved 'a

text \<open>A property read off an object at run time: \<open>None\<close> is \<open>undefined\<close>. Arithmetic
  turns \<open>undefined\<close> into \<open>NaN\<close>, and \<open>NaN\<close> is absorbing; every comparison with
  \<open>NaN\<close> is false; \<open>Math.max\<close> of \<open>NaN\<close> is \<open>NaN\<close>.\<close>

definition toNumber :: "number option \<Rightarrow> number" where
  "toNumber v = (case v of None \<Rightarrow> NaN | Some n \<Rightarrow> n)"

definition minusInt :: "number \<Rightarrow> int \<Rightarrow> number" where
  "minusInt x k = (case x of NaN \<Rightarrow> NaN | Num n \<Rightarrow> Num (n - k))"

definition greaterThan :: "number \<Rightarrow> int \<Rightarrow> bool" where
  "greaterThan x k = (case x of NaN \<Rightarrow> False | Num n \<Rightarrow> n > k)"

definition mathMax :: "int \<Rightarrow> number \<Rightarrow> number" where
  "mathMax k x = (case x of NaN \<Rightarrow> NaN | Num n \<Rightarrow> Num (max k n))"

definition isUpper :: "char \<Rightarrow> bool" where
  "isUpper c = (65 \<le> (of_char c :: nat) \<and> (of_char c :: nat) \<le> 90)"

definition toLowerCase :: "string \<Rightarrow> string" where
  "toLowerCase s = map (\<lambda>c. if isUpper c then char_of ((of_char c :: nat) + 32) else c) s"

definition isWhiteSpace :: "char \<Rightarrow> bool" where
  "isWhiteSpace c = ((of_char c :: nat) \<in> {9, 10, 11, 12, 13, 32})"

definition trim :: "string \<Rightarrow> string" where
  "trim s = rev (dropWhile isWhiteSpace (rev (dropWhile isWhiteSpace s)))"

definition startsWith :: "string \<Rightarrow> string \<Rightarrow> bool" where
  "startsWith s p = (take (length p) s = p)"

definition slice :: "string \<Rightarrow> nat \<Rightarrow> string" where
  "slice s n = drop n s"

definition digitOf :: "char \<Rightarrow> nat option" where
  "digitOf c =
     (let n = (of_char c :: nat) in
      if 48 \<le> n \<and> n \<le> 57 then Some (n - 48)
      else if 97 \<le> n \<and> n \<le> 122 then Some (n - 87)
      else if 65 \<le> n \<and> n \<le> 90 then Some (n - 55)
      else None)"

definition isDigitIn :: "nat \<Rightarrow> char \<Rightarrow> bool" where
  "isDigitIn radix c = (case digitOf c of None \<Rightarrow> False | Some d \<Rightarrow> d < radix)"

definition digitsValue :: "nat \<Rightarrow> string \<Rightarrow> int" where
  "digitsValue radix ds =
     foldl (\<lambda>acc c. acc * int radix + int (case digitOf c of None \<Rightarrow> 0 | Some d \<Rightarrow> d)) 0 ds"

text \<open>\<open>parseInt(s, 10)\<close>: leading white space, an optional sign, then the longest run of
  decimal digits; \<open>NaN\<close> when there is none.\<close>

definition parseInt :: "string \<Rightarrow> number" where
  "parseInt s =
     (let t = dropWhile isWhiteSpace s;
          neg = (t \<noteq> [] \<and> hd t = CHR ''-'');
          u = (if t \<noteq> [] \<and> (hd t = CHR ''-'' \<or> hd t = CHR ''+'') then tl t else t);
          ds = takeWhile (isDigitIn 10) u
      in if ds = [] then NaN
         else Num ((if neg then - 1 else 1) * digitsValue 10 ds))"

definition parseDigits :: "nat \<Rightarrow> string \<Rightarrow> int option" where
  "parseDigits radix ds =
     (if ds \<noteq> [] \<and> list_all (isDigitIn radix) ds then Some (digitsValue radix ds) else None)"

text \<open>\<open>BigInt(s)\<close> on a string: white space trimmed, the empty string is 0, a prefix
  \<open>0x\<close>, \<open>0o\<close> or \<open>0b\<close> selects the radix (no sign allowed then), otherwise signed
  decimal digits. \<open>None\<close> is the \<open>SyntaxError\<close> it throws.\<close>

definition BigInt :: "string \<Rightarrow> int option" where
  "BigInt s =
     (let t = trim s in
      if t = [] then Some 0
      else if startsWith t ''0x'' \<or> startsWith t ''0X'' then parseDigits 16 (drop 2 t)
      else if startsWith t ''0o'' \<or> startsWith t ''0O'' then parseDigits 8 (drop 2 t)
      else if startsWith t ''0b'' \<or> startsWith t ''0B'' then parseDigits 2 (drop 2 t)
      else if hd t = CHR ''-'' then map_option uminus (parseDigits 10 (tl t))
      else if hd t = CHR ''+'' then parseDigits 10 (tl t)
      else parseDigits 10 t)"

section \<open>Data model (types.ts)\<close>

datatype PaymentStatus = Pending | Paid | Expired | Failed

fun statusName :: "PaymentStatus \<Rightarrow> string" where
  "statusName Pending = ''pending''"
| "statusName Paid = ''paid''"
| "statusName Expired = ''expired''"
| "statusName Failed = ''failed''"

text \<open>The policy as the functions of payment-flow.ts receive it.
  \<open>freeMessagesPerSession\<close> is declared a \<open>number\<close>, but the object that
  \<open>resolveConfig\<close> hands to the hooks holds \<open>undefined\<close> there when
  \<open>X402_FREE_MESSAGES\<close> is unset and \<open>NaN\<close> when it is not numeric; the field takes
  these values too (\<open>None\<close> is \<open>undefined\<close>).\<close>

record X402PaymentConfig =
  enabled :: bool
  network :: string
  payTo :: string
  pricePerMessage :: string
  facilitatorUrl :: string
  privateKey :: "string option"
  freeMessagesPerSession :: "number option"
  telegramPaymentBotUrl :: string

record PaymentSession =
  sessionKey :: string
  channelId :: string
  userId :: string
  messageCount :: int
  paidMessageCount :: int
  lastPaymentTxHash :: "string option"
  lastPaymentTimestamp :: "int option"
  pendingPaymentId :: "string option"
  walletAddress :: "string option"

record PaymentRequest =
  id_r :: string
  sessionKey_r :: string
  amount_r :: string
  network_r :: string
  payTo_r :: string
  status :: PaymentStatus
  createdAt :: int
  expiresAt :: int
  txHash_r :: "string option"

record PaymentResult =
  success :: bool
  txHash_p :: "string option"
  network_p :: "string option"
  payer :: "string option"
  error :: "string option"

definition NETWORKS_BASE_MAINNET :: string where
  "NETWORKS_BASE_MAINNET = ''eip155:8453''"

definition NETWORKS_BASE_SEPOLIA :: string where
  "NETWORKS_BASE_SEPOLIA = ''eip155:84532''"

definition FACILITATORS_TESTNET :: string where
  "FACILITATORS_TESTNET = ''https://x402.org/facilitator''"

definition FACILITATORS_MAINNET :: string where
  "FACILITATORS_MAINNET = ''https://api.cdp.coinbase.com/platform/v2/x402''"

section \<open>Configuration resolver (config.ts)\<close>

text \<open>\<open>Partial<X402PaymentConfig>\<close>, and what \<open>resolveConfig\<close> returns at run time: an
  object whose properties may be missing or hold \<open>undefined\<close>.\<close>

record ConfigObject =
  enabled_o :: "bool property"
  network_o :: "string property"
  payTo_o :: "string property"
  pricePerMessage_o :: "string property"
  facilitatorUrl_o :: "string property"
  privateKey_o :: "string property"
  freeMessagesPerSession_o :: "number property"
  telegramPaymentBotUrl_o :: "string property"

text \<open>The variables of \<open>process.env\<close> that \<open>loadConfigFromEnv\<close> reads; \<open>None\<close> is an
  unset variable.\<close>

record ProcessEnv =
  X402_ENABLED :: "string option"
  X402_NETWORK :: "string option"
  X402_PAY_TO :: "string option"
  X402_PRICE_PER_MESSAGE :: "string option"
  X402_FACILITATOR_URL :: "string option"
  X402_PRIVATE_KEY :: "string option"
  X402_FREE_MESSAGES :: "string option"
  X402_TELEGRAM_PAYMENT_URL :: "string option"

definition DEFAULT_CONFIG :: ConfigObject where
  "DEFAULT_CONFIG =
     \<lparr> enabled_o = Present False,
       network_o = Present NETWORKS_BASE_SEPOLIA,
       payTo_o = Present '''',
       pricePerMessage_o = Present ''$0.01'',
       facilitatorUrl_o = Present FACILITATORS_TESTNET,
       privateKey_o = Absent,
       freeMessagesPerSession_o = Present (Num 3),
       telegramPaymentBotUrl_o = Present ''https://openclaw.ai/pay'' \<rparr>"

text \<open>\<open>process.env.X || undefined\<close>: an unset or empty variable gives \<open>undefined\<close>.\<close>

definition orUndefined :: "string option \<Rightarrow> string property" where
  "orUndefined v = (case v of None \<Rightarrow> Undefined
                    | Some s \<Rightarrow> if s = [] then Undefined else Present s)"

definition loadConfigFromEnv :: "ProcessEnv \<Rightarrow> ConfigObject" where
  "loadConfigFromEnv env =
     \<lparr> enabled_o = Present (X402_ENABLED env = Some ''true''),
       network_o = orUndefined (X402_NETWORK env),
       payTo_o = orUndefined (X402_PAY_TO env),
       pricePerMessage_o = orUndefined (X402_PRICE_PER_MESSAGE env),
       facilitatorUrl_o = orUndefined (X402_FACILITATOR_URL env),
       privateKey_o = orUndefined (X402_PRIVATE_KEY env),
       freeMessagesPerSession_o =
         (case X402_FREE_MESSAGES env of
            None \<Rightarrow> Undefined
          | Some s \<Rightarrow> if s = [] then Undefined else Present (parseInt s)),
       telegramPaymentBotUrl_o = orUndefined (X402_TELEGRAM_PAYMENT_URL env) \<rparr>"

definition over :: "'a property \<Rightarrow> 'a property \<Rightarrow> 'a property" where
  "over base upd = (case upd of Absent \<Rightarrow> base | _ \<Rightarrow> upd)"

text \<open>\<open>{...a, ...b}\<close>: every own property of \<open>b\<close> replaces that of \<open>a\<close>.\<close>

definition spread :: "ConfigObject \<Rightarrow> ConfigObject \<Rightarrow> ConfigObject" where
  "spread a b =
     \<lparr> enabled_o = over (enabled_o a) (enabled_o b),
       network_o = over (network_o a) (network_o b),
       payTo_o = over (payTo_o a) (payTo_o b),
       pricePerMessage_o = over (pricePerMessage_o a) (pricePerMessage_o b),
       facilitatorUrl_o = over (facilitatorUrl_o a) (facilitatorUrl_o b),
       privateKey_o = over (privateKey_o a) (privateKey_o b),
       freeMessagesPerSession_o = over (freeMessagesPerSession_o a) (freeMessagesPerSession_o b),
       telegramPaymentBotUrl_o = over (telegramPaymentBotUrl_o a) (telegramPaymentBotUrl_o b) \<rparr>"

text \<open>\<open>pluginConfig\<close> is an optional parameter: spreading \<open>undefined\<close> adds nothing.\<close>

definition resolveConfig :: "ProcessEnv \<Rightarrow> ConfigObject option \<Rightarrow> ConfigObject" where
  "resolveConfig env pluginConfig =
     (let envConfig = loadConfigFromEnv env;
          withPlugin = (case pluginConfig of None \<Rightarrow> DEFAULT_CONFIG
                        | Some p \<Rightarrow> spread DEFAULT_CONFIG p)
      in spread withPlugin envConfig)"

section \<open>x402 client: facilitator verification (x402-client.ts)\<close>

text \<open>What the \<open>fetch\<close> to the facilitator's \<open>/verify\<close> endpoint does: it (or reading
  the body) throws, it answers with a status that is not \<open>ok\<close> and a body text, or it
  answers \<open>ok\<close> with the JSON fields \<open>transaction\<close>, \<open>network\<close> and \<open>payer\<close>.\<close>

datatype FetchOutcome =
    FetchThrew "string option"
  | FetchNotOk string
  | FetchOk "string option" "string option" "string option"

text \<open>The request: the URL and the body fields \<open>signature\<close>, \<open>network\<close>, \<open>payTo\<close>,
  \<open>price\<close>.\<close>

type_synonym Facilitator = "string \<Rightarrow> string \<Rightarrow> string \<Rightarrow> string \<Rightarrow> string \<Rightarrow> FetchOutcome"

definition verifyPayment :: "Facilitator \<Rightarrow> string \<Rightarrow> X402PaymentConfig \<Rightarrow> PaymentResult" where
  "verifyPayment fetch paymentSignature config =
     (case fetch (facilitatorUrl config @ ''/verify'') paymentSignature
                 (network config) (payTo config) (pricePerMessage config) of
        FetchThrew msg \<Rightarrow>
          \<lparr> success = False, txHash_p = None, network_p = None, payer = None,
            error = Some (case msg of Some m \<Rightarrow> m | None \<Rightarrow> ''Unknown error'') \<rparr>
      | FetchNotOk body \<Rightarrow>
          \<lparr> success = False, txHash_p = None, network_p = None, payer = None,
            error = Some body \<rparr>
      | FetchOk transaction net pyr \<Rightarrow>
          \<lparr> success = True, txHash_p = transaction, network_p = net, payer = pyr,
            error = None \<rparr>)"

section \<open>Usage ledger and payment request lifecycle (payment-flow.ts)\<close>

text \<open>The two module-level maps. \<open>paymentSessions\<close> is only read and written by key;
  \<open>pendingPayments\<close> is also iterated, in insertion order, so it is an association list
  (a JavaScript \<open>Map\<close> has one entry per key). The stored objects are mutated in place
  by the source; here a mutation is an update of the entry.\<close>

record FlowState =
  paymentSessions :: "string \<rightharpoonup> PaymentSession"
  pendingPayments :: "(string \<times> PaymentRequest) list"

definition getOrCreateSession ::
  "FlowState \<Rightarrow> string \<Rightarrow> string \<Rightarrow> string \<Rightarrow> PaymentSession \<times> FlowState" where
  "getOrCreateSession st key channel user =
     (case paymentSessions st key of
        Some session \<Rightarrow> (session, st)
      | None \<Rightarrow>
          let session = \<lparr> sessionKey = key, channelId = channel, userId = user,
                          messageCount = 0, paidMessageCount = 0,
                          lastPaymentTxHash = None, lastPaymentTimestamp = None,
                          pendingPaymentId = None, walletAddress = None \<rparr>
          in (session, st\<lparr>paymentSessions := (paymentSessions st)(key \<mapsto> session)\<rparr>))"

definition getSession :: "FlowState \<Rightarrow> string \<Rightarrow> PaymentSession option" where
  "getSession st key = paymentSessions st key"

text \<open>\<open>Object.assign(session, updates)\<close>: the updates are a function on the record.\<close>

definition updateSession ::
  "FlowState \<Rightarrow> string \<Rightarrow> (PaymentSession \<Rightarrow> PaymentSession) \<Rightarrow> FlowState" where
  "updateSession st key updates =
     (case paymentSessions st key of
        Some session \<Rightarrow> st\<lparr>paymentSessions := (paymentSessions st)(key \<mapsto> updates session)\<rparr>
      | None \<Rightarrow> st)"

text \<open>\<open>config.freeMessagesPerSession || 3\<close>: \<open>undefined\<close>, \<open>NaN\<close> and the number 0 are
  falsy.\<close>

definition isPaymentRequired :: "PaymentSession \<Rightarrow> X402PaymentConfig \<Rightarrow> bool" where
  "isPaymentRequired session config =
     (if \<not> enabled config then False
      else
        let freeMessages = (case freeMessagesPerSession config of
                              None \<Rightarrow> 3
                            | Some NaN \<Rightarrow> 3
                            | Some (Num n) \<Rightarrow> if n = 0 then 3 else n);
            unpaidMessages = messageCount session - paidMessageCount session
        in unpaidMessages \<ge> freeMessages)"

definition incrementMessageCount :: "FlowState \<Rightarrow> string \<Rightarrow> int \<times> FlowState" where
  "incrementMessageCount st key =
     (case paymentSessions st key of
        Some session \<Rightarrow>
          (messageCount session + 1,
           st\<lparr>paymentSessions :=
                (paymentSessions st)(key \<mapsto> session\<lparr>messageCount := messageCount session + 1\<rparr>)\<rparr>)
      | None \<Rightarrow> (0, st))"

text \<open>\<open>newId\<close> is what \<open>generatePaymentId()\<close> returns (a time stamp and random digits),
  \<open>now\<close> is \<open>Date.now()\<close>.\<close>

definition createPaymentRequest ::
  "string \<Rightarrow> int \<Rightarrow> FlowState \<Rightarrow> PaymentSession \<Rightarrow> X402PaymentConfig \<Rightarrow> PaymentRequest \<times> FlowState" where
  "createPaymentRequest newId now st session config =
     (let request = \<lparr> id_r = newId, sessionKey_r = sessionKey session,
                      amount_r = pricePerMessage config, network_r = network config,
                      payTo_r = payTo config, status = Pending, createdAt = now,
                      expiresAt = now + 30 * 60 * 1000, txHash_r = None \<rparr>;
          st1 = st\<lparr>pendingPayments := AList.update newId request (pendingPayments st)\<rparr>
      in (request, updateSession st1 (sessionKey session) (\<lambda>s. s\<lparr>pendingPaymentId := Some newId\<rparr>)))"

definition getPendingPayment :: "FlowState \<Rightarrow> string \<Rightarrow> PaymentRequest option" where
  "getPendingPayment st paymentId = map_of (pendingPayments st) paymentId"

definition failure :: "string \<Rightarrow> PaymentResult" where
  "failure msg = \<lparr> success = False, txHash_p = None, network_p = None, payer = None,
                   error = Some msg \<rparr>"

text \<open>\<open>now\<close> is the \<open>Date.now()\<close> of the expiry test, \<open>stamp\<close> the later one that dates the
  settlement.\<close>

definition processPaymentCallback ::
  "Facilitator \<Rightarrow> int \<Rightarrow> int \<Rightarrow> FlowState \<Rightarrow> string \<Rightarrow> string \<Rightarrow> X402PaymentConfig
     \<Rightarrow> PaymentResult \<times> FlowState" where
  "processPaymentCallback fetch now stamp st paymentId paymentSignature config =
     (case map_of (pendingPayments st) paymentId of
        None \<Rightarrow> (failure ''Payment not found'', st)
      | Some payment \<Rightarrow>
          if status payment \<noteq> Pending then
            (failure (''Payment already '' @ statusName (status payment)), st)
          else if now > expiresAt payment then
            (failure ''Payment expired'',
             st\<lparr>pendingPayments :=
                  AList.update paymentId (payment\<lparr>status := Expired\<rparr>) (pendingPayments st)\<rparr>)
          else
            let result = verifyPayment fetch paymentSignature config in
            if success result then
              let payment' = payment\<lparr>status := Paid, txHash_r := txHash_p result\<rparr>;
                  sessions' =
                    (case paymentSessions st (sessionKey_r payment) of
                       Some session \<Rightarrow>
                         (paymentSessions st)(sessionKey_r payment \<mapsto>
                            session\<lparr>paidMessageCount := paidMessageCount session + 1,
                                    lastPaymentTxHash := txHash_p result,
                                    lastPaymentTimestamp := Some stamp,
                                    pendingPaymentId := None\<rparr>)
                     | None \<Rightarrow> paymentSessions st)
              in (result,
                  \<lparr> paymentSessions = sessions',
                    pendingPayments = AList.update paymentId payment' (pendingPayments st) \<rparr>)
            else
              (result,
               st\<lparr>pendingPayments :=
                    AList.update paymentId (payment\<lparr>status := Failed\<rparr>) (pendingPayments st)\<rparr>))"

datatype StatusText = FreeRemaining number | NoText | PaymentRequiredText string

record PaymentStatusMessage =
  requiresPayment :: bool
  message_s :: StatusText
  paymentId_s :: "string option"

text \<open>The returned \<open>paymentUrl\<close> (a deep link rendered by \<open>createPaymentDeepLink\<close>) is
  display text and is left out; the message texts are the constructors of \<open>StatusText\<close>.\<close>

definition generatePaymentStatusMessage ::
  "string \<Rightarrow> int \<Rightarrow> FlowState \<Rightarrow> PaymentSession \<Rightarrow> X402PaymentConfig
     \<Rightarrow> PaymentStatusMessage \<times> FlowState" where
  "generatePaymentStatusMessage newId now st session config =
     (if \<not> isPaymentRequired session config then
        let remaining = minusInt (toNumber (freeMessagesPerSession config))
                          (messageCount session - paidMessageCount session)
        in (\<lparr> requiresPayment = False,
              message_s = (if greaterThan remaining 0 then FreeRemaining remaining else NoText),
              paymentId_s = None \<rparr>, st)
      else
        let (paymentRequest, st') = createPaymentRequest newId now st session config
        in (\<lparr> requiresPayment = True,
              message_s = PaymentRequiredText (pricePerMessage config),
              paymentId_s = Some (id_r paymentRequest) \<rparr>, st'))"

definition DAY_MS :: int where
  "DAY_MS = 24 * 60 * 60 * 1000"

text \<open>One round of the loop of \<open>cleanupExpiredPayments\<close> on the entry \<open>(id, payment)\<close> of
  the snapshot \<open>Array.from(pendingPayments.entries())\<close>: the store and the counter
  before, the store and the counter after.\<close>

definition cleanupStep ::
  "int \<Rightarrow> string \<times> PaymentRequest \<Rightarrow> (string \<times> PaymentRequest) list \<times> int
     \<Rightarrow> (string \<times> PaymentRequest) list \<times> int" where
  "cleanupStep now entry acc =
     (let pid = fst entry; payment = snd entry; store = fst acc; cleaned = snd acc;
          lapsed = (status payment = Pending \<and> now > expiresAt payment);
          payment' = (if lapsed then payment\<lparr>status := Expired\<rparr> else payment);
          store1 = (if lapsed then AList.update pid payment' store else store);
          cleaned' = (if lapsed then cleaned + 1 else cleaned);
          store2 = (if status payment' \<noteq> Pending \<and> now - createdAt payment' > DAY_MS
                    then AList.delete pid store1 else store1)
      in (store2, cleaned'))"

definition cleanupExpiredPayments :: "int \<Rightarrow> FlowState \<Rightarrow> int \<times> FlowState" where
  "cleanupExpiredPayments now st =
     (let r = fold (cleanupStep now) (pendingPayments st) (pendingPayments st, 0)
      in (snd r, st\<lparr>pendingPayments := fst r\<rparr>))"

record SessionStats =
  totalMessages :: int
  paidMessages :: int
  unpaidMessages :: int

text \<open>\<open>totalSpent\<close>, a rendering of \<open>paidMessageCount * 0.01\<close> with two decimals, is
  left out of the statistics.\<close>

definition getSessionStats :: "FlowState \<Rightarrow> string \<Rightarrow> SessionStats option" where
  "getSessionStats st key =
     (case paymentSessions st key of
        None \<Rightarrow> None
      | Some session \<Rightarrow>
          Some \<lparr> totalMessages = messageCount session,
                 paidMessages = paidMessageCount session,
                 unpaidMessages = messageCount session - paidMessageCount session \<rparr>)"

section \<open>Direct on-chain verification (test-telegram.ts)\<close>

datatype ReceiptStatus = TxSuccess | TxReverted

record Log =
  address :: string
  topics :: "string list"
  data :: string

record TransactionReceipt =
  status_t :: ReceiptStatus
  logs :: "Log list"

text \<open>\<open>viemClient.getTransactionReceipt({hash})\<close>: it rejects, or resolves to a receipt
  or to nothing.\<close>

type_synonym Rpc = "string \<Rightarrow> TransactionReceipt option awaited"

text \<open>The reasons of a failed verification. The source renders them as text; the two
  that carry amounts print them with \<open>formatUnits(_, 6)\<close>. \<open>Thrown\<close> is the message of an
  exception caught from the RPC call, \<open>BigIntSyntaxError\<close> the one \<open>BigInt\<close> throws on
  log data it cannot read.\<close>

datatype VerifyError =
    TransactionAlreadyUsed
  | TransactionNotFound
  | TransactionFailed
  | NoUsdcTransfer
  | WrongRecipient string string
  | InsufficientAmount int int
  | Thrown "string option"
  | BigIntSyntaxError string

text \<open>\<open>amount_v\<close> is the transferred value that the source prints with
  \<open>formatUnits(value, 6)\<close>.\<close>

record VerifyResult =
  valid :: bool
  error_v :: "VerifyError option"
  amount_v :: "int option"
  from_v :: "string option"

definition USDC_CONTRACT :: string where
  "USDC_CONTRACT = ''0x036CbD53842c5426634e7929541eC2318f3dCF7e''"

definition TRANSFER_TOPIC :: string where
  "TRANSFER_TOPIC = ''0xddf252ad1be2c89b69c2b068fc378daa952ba7f163c4a11628f55a4df523b3ef''"

definition invalid :: "VerifyError \<Rightarrow> VerifyResult" where
  "invalid e = \<lparr> valid = False, error_v = Some e, amount_v = None, from_v = None \<rparr>"

definition isUsdcTransfer :: "Log \<Rightarrow> bool" where
  "isUsdcTransfer log =
     (toLowerCase (address log) = toLowerCase USDC_CONTRACT
      \<and> (case topics log of [] \<Rightarrow> False | t # _ \<Rightarrow> t = TRANSFER_TOPIC))"

text \<open>\<open>`0x${topics[i]?.slice(26)}`\<close>: a missing topic prints as \<open>undefined\<close>.\<close>

definition topicAddress :: "string list \<Rightarrow> nat \<Rightarrow> string" where
  "topicAddress ts i = ''0x'' @ (if i < length ts then slice (ts ! i) 26 else ''undefined'')"

text \<open>The state is the module-level set \<open>verifiedTxHashes\<close>.\<close>

definition verifyPaymentTransaction ::
  "Rpc \<Rightarrow> string set \<Rightarrow> string \<Rightarrow> string \<Rightarrow> int \<Rightarrow> VerifyResult \<times> string set" where
  "verifyPaymentTransaction rpc verified txHash expectedTo minAmount =
     (if toLowerCase txHash \<in> verified then (invalid TransactionAlreadyUsed, verified)
      else
        case rpc txHash of
          Rejected msg \<Rightarrow> (invalid (Thrown msg), verified)
        | Resolved None \<Rightarrow> (invalid TransactionNotFound, verified)
        | Resolved (Some receipt) \<Rightarrow>
            (if status_t receipt \<noteq> TxSuccess then (invalid TransactionFailed, verified)
             else
               (case find isUsdcTransfer (logs receipt) of
                  None \<Rightarrow> (invalid NoUsdcTransfer, verified)
                | Some transferLog \<Rightarrow>
                    (let sender = topicAddress (topics transferLog) 1;
                         recipient = topicAddress (topics transferLog) 2
                     in (case BigInt (data transferLog) of
                           None \<Rightarrow> (invalid (BigIntSyntaxError (data transferLog)), verified)
                         | Some v \<Rightarrow>
                             (if toLowerCase recipient \<noteq> toLowerCase expectedTo then
                                (invalid (WrongRecipient expectedTo recipient), verified)
                              else if v < minAmount then
                                (invalid (InsufficientAmount minAmount v), verified)
                              else
                                (\<lparr> valid = True, error_v = None, amount_v = Some v,
                                   from_v = Some sender \<rparr>,
                                 insert (toLowerCase txHash) verified)))))))"

definition PAYMENT_CONFIG :: X402PaymentConfig where
  "PAYMENT_CONFIG =
     \<lparr> enabled = True, network = ''eip155:84532'',
       payTo = ''0xBf30B87972F7A1e1fA018615d636b2C3c7bcA8Ef'',
       pricePerMessage = ''$0.01'',
       facilitatorUrl = ''https://x402.org/facilitator'',
       privateKey = None, freeMessagesPerSession = Some (Num 3),
       telegramPaymentBotUrl = ''http://localhost:8402'' \<rparr>"

text \<open>\<open>BigInt(Math.round(parseFloat(priceStr) * 1_000_000))\<close> for the constant price
  \<open>$0.01\<close> of \<open>PAYMENT_CONFIG\<close>.\<close>

definition PRICE_USDC_UNITS :: int where
  "PRICE_USDC_UNITS = 10000"

record BotState =
  flow :: FlowState
  verifiedTxHashes :: "string set"

text \<open>What \<open>handleMessage\<close> sends back, by kind; the numbers are the ones the texts show.\<close>

datatype Reply =
    HelpReply
  | StatusReply int int number
  | ResetReply
  | TxHashMissingReply
  | VerifyingReply
  | VerificationFailedReply "VerifyError option"
  | PaymentVerifiedReply "int option" "string option" string number
  | UnknownCommandReply
  | PaymentRequiredReply "string option"
  | AiReply string number

text \<open>\<open>chatId\<close> and \<open>userIdStr\<close> are the decimal renderings of the numeric ids, as the
  template string and \<open>String(userId)\<close> produce them; \<open>newId\<close> and \<open>now\<close> feed
  \<open>createPaymentRequest\<close>. \<open>session\<close> is the stored object, so assigning to its fields
  updates the store.\<close>

definition handleMessage ::
  "Rpc \<Rightarrow> string \<Rightarrow> int \<Rightarrow> BotState \<Rightarrow> string \<Rightarrow> string \<Rightarrow> string \<Rightarrow> Reply list \<times> BotState" where
  "handleMessage rpc newId now bs chatId userIdStr text =
     (let key = ''telegram:'' @ chatId @ '':'' @ userIdStr;
          got = getOrCreateSession (flow bs) key ''telegram'' userIdStr;
          session = fst got; fl = snd got;
          freeRemaining = minusInt (toNumber (freeMessagesPerSession PAYMENT_CONFIG))
                            (messageCount session - paidMessageCount session)
      in
      if startsWith text ''/x402'' then
        let command = toLowerCase (trim (slice text 5)) in
        if command = ''help'' \<or> command = [] then ([HelpReply], bs\<lparr>flow := fl\<rparr>)
        else if command = ''status'' then
          ([StatusReply (messageCount session) (paidMessageCount session) (mathMax 0 freeRemaining)],
           bs\<lparr>flow := fl\<rparr>)
        else if command = ''reset'' then
          ([ResetReply],
           bs\<lparr>flow := fl\<lparr>paymentSessions :=
                  (paymentSessions fl)(key \<mapsto> session\<lparr>messageCount := 0, paidMessageCount := 0\<rparr>)\<rparr>\<rparr>)
        else if startsWith command ''paid'' then
          let txHash = trim (slice command 4) in
          if txHash = [] \<or> \<not> startsWith txHash ''0x'' then
            ([TxHashMissingReply], bs\<lparr>flow := fl\<rparr>)
          else
            let minAmount = PRICE_USDC_UNITS;
                checked = verifyPaymentTransaction rpc (verifiedTxHashes bs) txHash
                            (payTo PAYMENT_CONFIG) minAmount;
                result = fst checked; verified' = snd checked
            in
            if \<not> valid result then
              ([VerifyingReply, VerificationFailedReply (error_v result)],
               \<lparr> flow = fl, verifiedTxHashes = verified' \<rparr>)
            else
              let session' = session\<lparr>paidMessageCount := paidMessageCount session + 3\<rparr>;
                  freeRemaining' = minusInt (toNumber (freeMessagesPerSession PAYMENT_CONFIG))
                                     (messageCount session' - paidMessageCount session')
              in ([VerifyingReply,
                   PaymentVerifiedReply (amount_v result) (from_v result) (take 16 txHash)
                     (mathMax 0 freeRemaining')],
                  \<lparr> flow = fl\<lparr>paymentSessions := (paymentSessions fl)(key \<mapsto> session')\<rparr>,
                    verifiedTxHashes = verified' \<rparr>)
        else ([UnknownCommandReply], bs\<lparr>flow := fl\<rparr>)
      else if isPaymentRequired session PAYMENT_CONFIG then
        let made = generatePaymentStatusMessage newId now fl session PAYMENT_CONFIG
        in ([PaymentRequiredReply (paymentId_s (fst made))], bs\<lparr>flow := snd made\<rparr>)
      else
        let counted = incrementMessageCount fl key;
            freeRemaining' = minusInt (toNumber (freeMessagesPerSession PAYMENT_CONFIG))
                               (fst counted - paidMessageCount session)
        in ([AiReply text freeRemaining'], bs\<lparr>flow := snd counted\<rparr>))"

section \<open>Permit2 client (permit2-client.ts)\<close>

record AllowanceData =
  amount_al :: int
  expiration_al :: int
  nonce_al :: int

record Permit2ApprovalStatus =
  hasTokenApproval :: bool
  hasPermit2Allowance :: bool
  allowanceAmount :: int
  allowanceExpiration :: int
  needsApproval :: bool
  needsPermit2Allowance :: bool

text \<open>The two contract reads of \<open>checkApprovalStatus\<close> (\<open>getTokenAllowance\<close> and
  \<open>getAllowance\<close>, awaited together) for an owner and a spender: the pair of results, or
  a rejection when either read fails.\<close>

type_synonym Chain = "string \<Rightarrow> string \<Rightarrow> (int \<times> AllowanceData) awaited"

definition checkApprovalStatus ::
  "Chain \<Rightarrow> int \<Rightarrow> string \<Rightarrow> string \<Rightarrow> int \<Rightarrow> Permit2ApprovalStatus awaited" where
  "checkApprovalStatus chain dateNow owner spender requiredAmount =
     (case chain owner spender of
        Rejected msg \<Rightarrow> Rejected msg
      | Resolved reads \<Rightarrow>
          let tokenAllowance = fst reads; permit2Allowance = snd reads;
              now = dateNow div 1000;
              isAllowanceValid = (amount_al permit2Allowance \<ge> requiredAmount
                                  \<and> expiration_al permit2Allowance > now)
          in Resolved
               \<lparr> hasTokenApproval = (tokenAllowance \<ge> requiredAmount),
                 hasPermit2Allowance = isAllowanceValid,
                 allowanceAmount = amount_al permit2Allowance,
                 allowanceExpiration = expiration_al permit2Allowance,
                 needsApproval = (tokenAllowance < requiredAmount),
                 needsPermit2Allowance = (\<not> isAllowanceValid) \<rparr>)"

section \<open>Delegated authorization engine (permit2/auto-payment.ts)\<close>

record TokenPermissions =
  token :: string
  amount_tp :: int

record SignatureTransfer =
  permitted :: TokenPermissions
  spender :: string
  nonce :: int
  deadline :: int

record UserPaymentAuthorization =
  userAddress :: string
  permitSignature :: "string option"
  permit :: "SignatureTransfer option"
  authorizedAmount :: int
  spentAmount :: int
  expiresAt_a :: int
  createdAt_a :: int

text \<open>The request of a charge (\<open>PaymentRequest\<close> of auto-payment.ts); \<open>metadata\<close> is never
  read.\<close>

record ChargeRequest =
  userId_q :: string
  userAddress_q :: string
  amount :: int
  reason :: string
  metadata :: "(string \<times> string) list option"

text \<open>The texts of \<open>checkAuthorization\<close>, by kind; the balances are the ones the source
  prints with \<open>formatUnits(_, 6)\<close>.\<close>

datatype AuthMessage =
    NoAuthorizationFound
  | AuthorizationExpired
  | InsufficientAuthorizedBalance int
  | OnChainAuthorizationExpired
  | AuthorizationValid int

datatype ChargeError =
    AmountExceedsMaximum int
  | NotAuthorized AuthMessage
  | AuthorizationNotFound

record ChargeResult =
  success_q :: bool
  txHash_q :: "string option"
  error_q :: "ChargeError option"
  remainingBalance_q :: "int option"

record AuthCheck =
  authorized :: bool
  remainingBalance :: int
  needsReauthorization :: bool
  message :: AuthMessage

record AutoPaymentConfig =
  chainId :: int
  spenderAddress :: string
  recipientAddress :: string
  minBalanceThreshold :: "int option"
  maxPaymentAmount :: "int option"

text \<open>The constructor: \<open>parseUnits("1", 6)\<close> and \<open>parseUnits("100", 6)\<close> are the defaults.\<close>

definition AutoPaymentProcessor :: "AutoPaymentConfig \<Rightarrow> AutoPaymentConfig" where
  "AutoPaymentProcessor config =
     config\<lparr> minBalanceThreshold :=
               Some (case minBalanceThreshold config of Some t \<Rightarrow> t | None \<Rightarrow> 1000000),
             maxPaymentAmount :=
               Some (case maxPaymentAmount config of Some m \<Rightarrow> m | None \<Rightarrow> 100000000) \<rparr>"

definition getUserKey :: "string \<Rightarrow> string \<Rightarrow> string" where
  "getUserKey user addr = user @ '':'' @ toLowerCase addr"

text \<open>The module-level map \<open>userAuthorizations\<close> and the queue \<open>pendingPayments\<close>.\<close>

type_synonym Authorizations = "string \<rightharpoonup> UserPaymentAuthorization"

text \<open>What one call observes from outside: \<open>Date.now()\<close> in \<open>checkAuthorization\<close>, the
  \<open>Date.now()\<close> and the contract reads of \<open>checkApprovalStatus\<close>, and the random bytes of
  the simulated transaction hash.\<close>

record CallEnv =
  dateNow :: int
  chainDateNow :: int
  chainReads :: Chain
  simulatedTxHash :: string

definition registerAuthorization ::
  "int \<Rightarrow> Authorizations \<Rightarrow> string \<Rightarrow> string \<Rightarrow> int \<Rightarrow> int \<Rightarrow> string option
     \<Rightarrow> SignatureTransfer option \<Rightarrow> Authorizations" where
  "registerAuthorization now auths user addr ceiling expiry sig pmt =
     auths(getUserKey user addr \<mapsto>
       \<lparr> userAddress = addr, permitSignature = sig, permit = pmt,
         authorizedAmount = ceiling, spentAmount = 0,
         expiresAt_a = expiry, createdAt_a = now \<rparr>)"

definition checkAuthorization ::
  "AutoPaymentConfig \<Rightarrow> CallEnv \<Rightarrow> Authorizations \<Rightarrow> string \<Rightarrow> string \<Rightarrow> int
     \<Rightarrow> AuthCheck awaited" where
  "checkAuthorization config env auths user addr amt =
     (case auths (getUserKey user addr) of
        None \<Rightarrow>
          Resolved \<lparr> authorized = False, remainingBalance = 0,
                     needsReauthorization = True, message = NoAuthorizationFound \<rparr>
      | Some auth \<Rightarrow>
          (let now = dateNow env div 1000 in
           if expiresAt_a auth \<le> now then
             Resolved \<lparr> authorized = False, remainingBalance = 0,
                        needsReauthorization = True, message = AuthorizationExpired \<rparr>
           else
             (let remaining = authorizedAmount auth - spentAmount auth in
              if remaining < amt then
                Resolved \<lparr> authorized = False, remainingBalance = remaining,
                           needsReauthorization = True,
                           message = InsufficientAuthorizedBalance remaining \<rparr>
              else
                (case checkApprovalStatus (chainReads env) (chainDateNow env) addr
                        (spenderAddress config) amt of
                   Rejected msg \<Rightarrow> Rejected msg
                 | Resolved onChainStatus \<Rightarrow>
                     if needsApproval onChainStatus \<or> needsPermit2Allowance onChainStatus then
                       Resolved \<lparr> authorized = False, remainingBalance = remaining,
                                  needsReauthorization = True,
                                  message = OnChainAuthorizationExpired \<rparr>
                     else
                       Resolved \<lparr> authorized = True, remainingBalance = remaining,
                                  needsReauthorization =
                                    (remaining < (case minBalanceThreshold config of
                                                    Some t \<Rightarrow> t | None \<Rightarrow> 0)),
                                  message = AuthorizationValid remaining \<rparr>))))"

definition refused :: "ChargeError \<Rightarrow> ChargeResult" where
  "refused e = \<lparr> success_q = False, txHash_q = None, error_q = Some e,
                 remainingBalance_q = None \<rparr>"

text \<open>\<open>processPayment\<close> run to completion, with nothing else touching the map between
  its authorization check and its update.\<close>

definition processPayment ::
  "AutoPaymentConfig \<Rightarrow> CallEnv \<Rightarrow> Authorizations \<Rightarrow> ChargeRequest
     \<Rightarrow> ChargeResult awaited \<times> Authorizations" where
  "processPayment config env auths request =
     (let user = userId_q request; addr = userAddress_q request; amt = amount request;
          maxAmount = (case maxPaymentAmount config of Some m \<Rightarrow> m | None \<Rightarrow> 0)
      in
      if amt > maxAmount then (Resolved (refused (AmountExceedsMaximum maxAmount)), auths)
      else
        (case checkAuthorization config env auths user addr amt of
           Rejected msg \<Rightarrow> (Rejected msg, auths)
         | Resolved authCheck \<Rightarrow>
             if \<not> authorized authCheck then
               (Resolved (refused (NotAuthorized (message authCheck))), auths)
             else
               (let key = getUserKey user addr in
                case auths key of
                  None \<Rightarrow> (Resolved (refused AuthorizationNotFound), auths)
                | Some auth \<Rightarrow>
                    (let auth' = auth\<lparr>spentAmount := spentAmount auth + amt\<rparr>
                     in (Resolved \<lparr> success_q = True,
                                    txHash_q = Some (''0x'' @ simulatedTxHash env),
                                    error_q = None,
                                    remainingBalance_q =
                                      Some (authorizedAmount auth' - spentAmount auth') \<rparr>,
                         auths(key \<mapsto> auth'))))))"

text \<open>The same function cut at its suspension point. A call runs without interruption
  until \<open>checkAuthorization\<close> awaits the contract reads; other calls may run before the
  reads resolve and the call resumes. \<open>ChargeDone\<close> is a call that returned before
  suspending; \<open>ChargeAwaiting\<close> keeps the local \<open>remainingBalance\<close> computed before the
  suspension.\<close>

datatype ChargeProgress = ChargeDone ChargeResult | ChargeAwaiting int

definition processPayment_begin ::
  "AutoPaymentConfig \<Rightarrow> CallEnv \<Rightarrow> Authorizations \<Rightarrow> ChargeRequest \<Rightarrow> ChargeProgress" where
  "processPayment_begin config env auths request =
     (let user = userId_q request; addr = userAddress_q request; amt = amount request;
          maxAmount = (case maxPaymentAmount config of Some m \<Rightarrow> m | None \<Rightarrow> 0)
      in
      if amt > maxAmount then ChargeDone (refused (AmountExceedsMaximum maxAmount))
      else
        (case auths (getUserKey user addr) of
           None \<Rightarrow> ChargeDone (refused (NotAuthorized NoAuthorizationFound))
         | Some auth \<Rightarrow>
             (let now = dateNow env div 1000 in
              if expiresAt_a auth \<le> now then
                ChargeDone (refused (NotAuthorized AuthorizationExpired))
              else
                (let remaining = authorizedAmount auth - spentAmount auth in
                 if remaining < amt then
                   ChargeDone (refused (NotAuthorized (InsufficientAuthorizedBalance remaining)))
                 else ChargeAwaiting remaining))))"

definition processPayment_resume ::
  "AutoPaymentConfig \<Rightarrow> CallEnv \<Rightarrow> Authorizations \<Rightarrow> ChargeRequest \<Rightarrow> int
     \<Rightarrow> ChargeResult awaited \<times> Authorizations" where
  "processPayment_resume config env auths request remaining =
     (let user = userId_q request; addr = userAddress_q request; amt = amount request in
      case checkApprovalStatus (chainReads env) (chainDateNow env) addr
             (spenderAddress config) amt of
        Rejected msg \<Rightarrow> (Rejected msg, auths)
      | Resolved onChainStatus \<Rightarrow>
          if needsApproval onChainStatus \<or> needsPermit2Allowance onChainStatus then
            (Resolved (refused (NotAuthorized OnChainAuthorizationExpired)), auths)
          else
            (let key = getUserKey user addr in
             case auths key of
               None \<Rightarrow> (Resolved (refused AuthorizationNotFound), auths)
             | Some auth \<Rightarrow>
                 (let auth' = auth\<lparr>spentAmount := spentAmount auth + amt\<rparr>
                  in (Resolved \<lparr> success_q = True,
                                 txHash_q = Some (''0x'' @ simulatedTxHash env),
                                 error_q = None,
                                 remainingBalance_q =
                                   Some (authorizedAmount auth' - spentAmount auth') \<rparr>,
                      auths(key \<mapsto> auth')))))"

definition queuePayment :: "ChargeRequest list \<Rightarrow> ChargeRequest \<Rightarrow> ChargeRequest list" where
  "queuePayment queue request = queue @ [request]"



definition getAuthorizationStatus ::
  "Authorizations \<Rightarrow> string \<Rightarrow> string \<Rightarrow> UserPaymentAuthorization option" where
  "getAuthorizationStatus auths user addr = auths (getUserKey user addr)"


section \<open>Vocabulary of the properties\<close>

text \<open>A request that a sweep at time \<open>now\<close> marks expired, what the sweep leaves of a
  request, and a request that the sweep deletes (terminal and older than a day).\<close>

definition lapsed :: "int \<Rightarrow> PaymentRequest \<Rightarrow> bool" where
  "lapsed now p = (status p = Pending \<and> now > expiresAt p)"

definition sweepEntry :: "int \<Rightarrow> PaymentRequest \<Rightarrow> PaymentRequest" where
  "sweepEntry now p = (if lapsed now p then p\<lparr>status := Expired\<rparr> else p)"

definition purged :: "int \<Rightarrow> PaymentRequest \<Rightarrow> bool" where
  "purged now p = (status p \<noteq> Pending \<and> now - createdAt p > DAY_MS)"

definition sweep ::
  "int \<Rightarrow> (string \<times> PaymentRequest) list \<Rightarrow> (string \<times> PaymentRequest) list" where
  "sweep now xs =
     filter (\<lambda>e. \<not> purged now (snd e)) (map (\<lambda>e. (fst e, sweepEntry now (snd e))) xs)"

text \<open>Any number of further calls of \<open>verifyPaymentTransaction\<close>, each with its own
  RPC answer and arguments, run one after the other on the set of consumed references.\<close>

fun laterAttempts :: "(Rpc \<times> string \<times> string \<times> int) list \<Rightarrow> string set \<Rightarrow> string set" where
  "laterAttempts [] verified = verified"
| "laterAttempts (a # rest) verified =
     laterAttempts rest
       (snd (verifyPaymentTransaction (fst a) verified (fst (snd a)) (fst (snd (snd a)))
              (snd (snd (snd a)))))"


text \<open>Two charges, the second started after the first has returned.\<close>

definition twoChargesInSequence ::
  "AutoPaymentConfig \<Rightarrow> CallEnv \<Rightarrow> CallEnv \<Rightarrow> Authorizations \<Rightarrow> ChargeRequest \<Rightarrow> ChargeRequest
     \<Rightarrow> (ChargeResult awaited \<times> ChargeResult awaited) \<times> Authorizations" where
  "twoChargesInSequence config env1 env2 auths request1 request2 =
     (let first = processPayment config env1 auths request1;
          second = processPayment config env2 (snd first) request2
      in ((fst first, fst second), snd second))"

text \<open>Two charges started together: each runs to its suspension point before either
  resumes, then the first resumes and then the second.\<close>

definition resumeCharge ::
  "AutoPaymentConfig \<Rightarrow> CallEnv \<Rightarrow> Authorizations \<Rightarrow> ChargeRequest \<Rightarrow> ChargeProgress
     \<Rightarrow> ChargeResult awaited \<times> Authorizations" where
  "resumeCharge config env auths request progress =
     (case progress of
        ChargeDone r \<Rightarrow> (Resolved r, auths)
      | ChargeAwaiting remaining \<Rightarrow> processPayment_resume config env auths request remaining)"

definition twoChargesInterleaved ::
  "AutoPaymentConfig \<Rightarrow> CallEnv \<Rightarrow> CallEnv \<Rightarrow> Authorizations \<Rightarrow> ChargeRequest \<Rightarrow> ChargeRequest
     \<Rightarrow> (ChargeResult awaited \<times> ChargeResult awaited) \<times> Authorizations" where
  "twoChargesInterleaved config env1 env2 auths request1 request2 =
     (let progress1 = processPayment_begin config env1 auths request1;
          progress2 = processPayment_begin config env2 auths request2;
          first = resumeCharge config env1 auths request1 progress1;
          second = resumeCharge config env2 (snd first) request2 progress2
      in ((fst first, fst second), snd second))"

section \<open>Sample inputs\<close>

definition noEnv :: ProcessEnv where
  "noEnv = \<lparr> X402_ENABLED = None, X402_NETWORK = None, X402_PAY_TO = None,
             X402_PRICE_PER_MESSAGE = None, X402_FACILITATOR_URL = None,
             X402_PRIVATE_KEY = None, X402_FREE_MESSAGES = None,
             X402_TELEGRAM_PAYMENT_URL = None \<rparr>"

definition samplePlugin :: ConfigObject where
  "samplePlugin =
     \<lparr> enabled_o = Present True, network_o = Present NETWORKS_BASE_MAINNET,
       payTo_o = Present ''0x1234567890123456789012345678901234567890'',
       pricePerMessage_o = Absent, facilitatorUrl_o = Absent, privateKey_o = Absent,
       freeMessagesPerSession_o = Present (Num 5), telegramPaymentBotUrl_o = Absent \<rparr>"

definition sampleSession :: PaymentSession where
  "sampleSession =
     \<lparr> sessionKey = ''telegram:1:2'', channelId = ''telegram'', userId = ''2'',
       messageCount = 3, paidMessageCount = 0, lastPaymentTxHash = None,
       lastPaymentTimestamp = None, pendingPaymentId = Some ''pay_1'',
       walletAddress = None \<rparr>"

definition sampleRequest :: PaymentRequest where
  "sampleRequest =
     \<lparr> id_r = ''pay_1'', sessionKey_r = ''telegram:1:2'', amount_r = ''$0.01'',
       network_r = ''eip155:84532'', payTo_r = payTo PAYMENT_CONFIG, status = Pending,
       createdAt = 1000, expiresAt = 1801000, txHash_r = None \<rparr>"

definition sampleFlow :: FlowState where
  "sampleFlow =
     \<lparr> paymentSessions = [''telegram:1:2'' \<mapsto> sampleSession],
       pendingPayments = [(''pay_1'', sampleRequest)] \<rparr>"

definition acceptingFacilitator :: Facilitator where
  "acceptingFacilitator = (\<lambda>url sig net to price. FetchOk (Some ''0xfeed'') (Some net) None)"

definition sampleReceipt :: TransactionReceipt where
  "sampleReceipt =
     \<lparr> status_t = TxSuccess,
       logs = [\<lparr> address = USDC_CONTRACT,
                  topics = [TRANSFER_TOPIC,
                    ''0x0000000000000000000000001111111111111111111111111111111111111111'',
                    ''0x000000000000000000000000bf30b87972f7a1e1fa018615d636b2c3c7bca8ef''],
                  data = ''0x2710'' \<rparr>] \<rparr>"

definition minedRpc :: Rpc where
  "minedRpc = (\<lambda>h. Resolved (Some sampleReceipt))"

definition unreachableRpc :: Rpc where
  "unreachableRpc = (\<lambda>h. Rejected (Some ''timeout''))"

definition sampleProcessor :: AutoPaymentConfig where
  "sampleProcessor =
     AutoPaymentProcessor
       \<lparr> chainId = 84532, spenderAddress = ''0x5555'', recipientAddress = ''0x6666'',
         minBalanceThreshold = None, maxPaymentAmount = None \<rparr>"

definition sampleAuths :: Authorizations where
  "sampleAuths = registerAuthorization 0 Map.empty ''alice'' ''0xAA'' 10 2000 None None"

definition sampleCallEnv :: CallEnv where
  "sampleCallEnv =
     \<lparr> dateNow = 1000000, chainDateNow = 1000000,
       chainReads = (\<lambda>owner spnd. Resolved (100, \<lparr> amount_al = 100, expiration_al = 5000,
                                                  nonce_al = 0 \<rparr>)),
       simulatedTxHash = ''ab'' \<rparr>"

definition sampleCharge :: ChargeRequest where
  "sampleCharge =
     \<lparr> userId_q = ''alice'', userAddress_q = ''0xAA'', amount = 6, reason = ''usage'',
       metadata = None \<rparr>"

section \<open>Lemmas on the cleanup sweep\<close>

lemma update_middle:
  "k \<notin> fst ` set pre \<Longrightarrow> AList.update k v (pre @ (k, w) # xs) = pre @ (k, v) # xs"
  by (induction pre) auto

lemma delete_middle:
  "k \<notin> fst ` set pre \<Longrightarrow> k \<notin> fst ` set xs \<Longrightarrow>
     AList.delete k (pre @ (k, w) # xs) = pre @ xs"
  by (induction pre) (auto simp: AList.delete_id)

lemma cleanupStep_middle:
  assumes "k \<notin> fst ` set pre" "k \<notin> fst ` set xs"
  shows "cleanupStep now (k, p) (pre @ (k, p) # xs, c) =
           ((if purged now (sweepEntry now p) then pre else pre @ [(k, sweepEntry now p)]) @ xs,
            (if lapsed now p then c + 1 else c))"
  using assms
  by (auto simp add: cleanupStep_def Let_def sweepEntry_def purged_def lapsed_def
        update_middle delete_middle)

text \<open>With one entry per key, the loop over the snapshot computes \<open>sweep\<close>: the entries
  already visited are in their final form, the others untouched.\<close>

lemma fold_cleanup_store:
  "distinct (map fst (pre @ xs)) \<Longrightarrow>
     fst (fold (cleanupStep now) xs (pre @ xs, c)) = pre @ sweep now xs"
proof (induction xs arbitrary: pre c)
  case Nil
  then show ?case by (simp add: sweep_def)
next
  case (Cons e xs)
  obtain k p where e: "e = (k, p)" by (cases e)
  from Cons.prems e have notin: "k \<notin> fst ` set pre" "k \<notin> fst ` set xs"
    by auto
  show ?case
  proof (cases "purged now (sweepEntry now p)")
    case True
    from Cons.prems e have d: "distinct (map fst (pre @ xs))" by auto
    show ?thesis
      using Cons.IH[OF d] True notin
      by (simp add: e cleanupStep_middle sweep_def)
  next
    case False
    from Cons.prems e have d: "distinct (map fst ((pre @ [(k, sweepEntry now p)]) @ xs))"
      by auto
    show ?thesis
      using Cons.IH[OF d] False notin
      by (simp add: e cleanupStep_middle sweep_def)
  qed
qed

lemma fold_cleanup_count:
  "snd (fold (cleanupStep now) xs (s, c)) =
     c + int (length (filter (\<lambda>e. lapsed now (snd e)) xs))"
proof (induction xs arbitrary: s c)
  case Nil
  then show ?case by simp
next
  case (Cons e xs)
  obtain s' where step:
    "cleanupStep now e (s, c) = (s', if lapsed now (snd e) then c + 1 else c)"
    by (simp add: cleanupStep_def Let_def lapsed_def)
  show ?case
    by (simp add: step Cons.IH)
qed

lemma sweep_not_lapsed: "e \<in> set (sweep now xs) \<Longrightarrow> \<not> lapsed now (snd e)"
  by (auto simp: sweep_def sweepEntry_def lapsed_def split: if_splits)

lemma cleanup_store:
  assumes "distinct (map fst (pendingPayments st))"
  shows "pendingPayments (snd (cleanupExpiredPayments now st)) = sweep now (pendingPayments st)"
  using fold_cleanup_store[of "[]" "pendingPayments st" now 0] assms
  by (simp add: cleanupExpiredPayments_def Let_def)

lemma cleanup_count:
  "fst (cleanupExpiredPayments now st) =
     int (length (filter (\<lambda>e. lapsed now (snd e)) (pendingPayments st)))"
  by (simp add: cleanupExpiredPayments_def Let_def fold_cleanup_count)

section \<open>The payment-required decision\<close>

text \<open>
  C1, as amended. \<open>isPaymentRequired\<close> is false whenever metering is disabled;
  otherwise it is true exactly when the unpaid messages
  \<open>messageCount - paidMessageCount\<close> reach the effective quota, which is the policy's
  free-message quota when that is a number other than 0, and 3 when it is 0, \<open>NaN\<close> or
  \<open>undefined\<close>.
\<close>

theorem isPaymentRequired_rule:
  "isPaymentRequired session config =
     (enabled config \<and>
      messageCount session - paidMessageCount session \<ge>
        (case freeMessagesPerSession config of
           None \<Rightarrow> 3
         | Some NaN \<Rightarrow> 3
         | Some (Num quota) \<Rightarrow> if quota = 0 then 3 else quota))"
  by (simp add: isPaymentRequired_def Let_def)

text \<open>
  C1 as stated fails at quota 0: with metering enabled and no message sent, the unpaid
  count 0 reaches the quota 0, yet no payment is required.
\<close>

theorem isPaymentRequired_zero_quota_counterexample:
  "\<not> (isPaymentRequired
         \<lparr> sessionKey = ''s'', channelId = ''telegram'', userId = ''u'',
           messageCount = 0, paidMessageCount = 0, lastPaymentTxHash = None,
           lastPaymentTimestamp = None, pendingPaymentId = None, walletAddress = None \<rparr>
         \<lparr> enabled = True, network = ''eip155:84532'', payTo = ''0x00'',
           pricePerMessage = ''$0.01'', facilitatorUrl = ''f'', privateKey = None,
           freeMessagesPerSession = Some (Num 0), telegramPaymentBotUrl = ''t'' \<rparr>
       = ((0::int) - 0 \<ge> 0))"
  by (simp add: isPaymentRequired_def)

section \<open>Expiry of payment requests\<close>

text \<open>
  C4. When \<open>processPaymentCallback\<close> runs on a stored request whose \<open>expiresAt\<close> has
  passed, whatever the facilitator would answer: the call fails, no session changes,
  and the request becomes expired if it was pending and is left as it was otherwise;
  so it never becomes paid and nothing is credited.
\<close>

theorem expired_request_never_paid:
  assumes "map_of (pendingPayments st) paymentId = Some payment"
    and "now > expiresAt payment"
  shows "\<not> success (fst (processPaymentCallback fetch now stamp st paymentId sig config))
       \<and> paymentSessions (snd (processPaymentCallback fetch now stamp st paymentId sig config))
           = paymentSessions st
       \<and> map_of (pendingPayments
                   (snd (processPaymentCallback fetch now stamp st paymentId sig config)))
           = (map_of (pendingPayments st))(paymentId \<mapsto>
                (if status payment = Pending then payment\<lparr>status := Expired\<rparr> else payment))"
  using assms
  by (auto simp: processPaymentCallback_def failure_def update_conv' map_upd_triv)

theorem expired_request_never_paid_witness:
  "map_of (pendingPayments sampleFlow) ''pay_1'' = Some sampleRequest
   \<and> 1801001 > expiresAt sampleRequest
   \<and> \<not> success (fst (processPaymentCallback acceptingFacilitator 1801001 1801002 sampleFlow
                       ''pay_1'' ''sig'' PAYMENT_CONFIG))
   \<and> paymentSessions (snd (processPaymentCallback acceptingFacilitator 1801001 1801002 sampleFlow
                       ''pay_1'' ''sig'' PAYMENT_CONFIG)) = paymentSessions sampleFlow
   \<and> map_of (pendingPayments (snd (processPaymentCallback acceptingFacilitator 1801001 1801002
                       sampleFlow ''pay_1'' ''sig'' PAYMENT_CONFIG))) ''pay_1''
       = Some (sampleRequest\<lparr>status := Expired\<rparr>)"
proof -
  have h1: "map_of (pendingPayments sampleFlow) ''pay_1'' = Some sampleRequest"
    by (simp add: sampleFlow_def)
  have h2: "1801001 > expiresAt sampleRequest"
    by (simp add: sampleRequest_def)
  have h3: "status sampleRequest = Pending"
    by (simp add: sampleRequest_def)
  show ?thesis
    using expired_request_never_paid[OF h1 h2, of acceptingFacilitator 1801002 "''sig''"
        PAYMENT_CONFIG] h1 h2 h3
    by simp
qed

section \<open>Cleanup\<close>

text \<open>
  C8. For every store (one entry per payment id, as in a \<open>Map\<close>) and every time \<open>now\<close>,
  a second \<open>cleanupExpiredPayments\<close> at the same time, right after a first one, returns 0.
\<close>

theorem cleanup_twice_returns_zero:
  assumes "distinct (map fst (pendingPayments st))"
  shows "fst (cleanupExpiredPayments now (snd (cleanupExpiredPayments now st))) = 0"
proof -
  have "filter (\<lambda>e. lapsed now (snd e)) (sweep now (pendingPayments st)) = []"
    by (simp add: filter_empty_conv sweep_not_lapsed)
  then show ?thesis
    by (simp add: cleanup_count cleanup_store[OF assms])
qed

theorem cleanup_twice_returns_zero_witness:
  "distinct (map fst (pendingPayments sampleFlow))
   \<and> fst (cleanupExpiredPayments 1801001 sampleFlow) = 1
   \<and> fst (cleanupExpiredPayments 1801001 (snd (cleanupExpiredPayments 1801001 sampleFlow))) = 0"
proof -
  have h: "distinct (map fst (pendingPayments sampleFlow))"
    by (simp add: sampleFlow_def)
  have first: "fst (cleanupExpiredPayments 1801001 sampleFlow) = 1"
    by (simp add: cleanup_count sampleFlow_def sampleRequest_def lapsed_def)
  show ?thesis
    using cleanup_twice_returns_zero[OF h, of 1801001] h first by simp
qed

section \<open>Delegated authorization\<close>

text \<open>
  C5. For every stored authorization and every requested amount, \<open>checkAuthorization\<close>
  answers not authorized, with \<open>needsReauthorization\<close> set, whenever the current time in
  seconds, \<open>floor(Date.now() / 1000)\<close>, is at or past \<open>expiresAt\<close>; the spent and
  authorized amounts play no part.
\<close>

theorem expired_authorization_unusable:
  assumes "auths (getUserKey user addr) = Some auth"
    and "dateNow env div 1000 \<ge> expiresAt_a auth"
  shows "checkAuthorization config env auths user addr amt =
           Resolved \<lparr> authorized = False, remainingBalance = 0,
                      needsReauthorization = True, message = AuthorizationExpired \<rparr>"
  using assms by (simp add: checkAuthorization_def)

theorem expired_authorization_unusable_witness:
  "sampleAuths (getUserKey ''alice'' ''0xAA'') =
       Some \<lparr> userAddress = ''0xAA'', permitSignature = None, permit = None,
              authorizedAmount = 10, spentAmount = 0, expiresAt_a = 2000, createdAt_a = 0 \<rparr>
   \<and> dateNow (sampleCallEnv\<lparr>dateNow := 2000000\<rparr>) div 1000 \<ge> 2000
   \<and> checkAuthorization sampleProcessor (sampleCallEnv\<lparr>dateNow := 2000000\<rparr>) sampleAuths
        ''alice'' ''0xAA'' 1 =
       Resolved \<lparr> authorized = False, remainingBalance = 0,
                  needsReauthorization = True, message = AuthorizationExpired \<rparr>"
proof -
  have h1: "sampleAuths (getUserKey ''alice'' ''0xAA'') =
       Some \<lparr> userAddress = ''0xAA'', permitSignature = None, permit = None,
              authorizedAmount = 10, spentAmount = 0, expiresAt_a = 2000, createdAt_a = 0 \<rparr>"
    by (simp add: sampleAuths_def registerAuthorization_def)
  have h2: "dateNow (sampleCallEnv\<lparr>dateNow := 2000000\<rparr>) div 1000
              \<ge> expiresAt_a \<lparr> userAddress = ''0xAA'', permitSignature = None, permit = None,
              authorizedAmount = 10, spentAmount = 0, expiresAt_a = 2000, createdAt_a = 0 \<rparr>"
    by simp
  show ?thesis
    using expired_authorization_unusable[where auths = sampleAuths and user = "''alice''"
        and addr = "''0xAA''" and env = "sampleCallEnv\<lparr>dateNow := 2000000\<rparr>"
        and config = sampleProcessor and amt = 1, OF h1 h2] h1 h2
    by simp
qed

section \<open>Consumed transaction references\<close>

lemma verify_used:
  "toLowerCase txHash \<in> verified \<Longrightarrow>
     verifyPaymentTransaction rpc verified txHash expectedTo m =
       (invalid TransactionAlreadyUsed, verified)"
  by (simp add: verifyPaymentTransaction_def)

lemma verify_mono:
  "verified \<subseteq> snd (verifyPaymentTransaction rpc verified txHash expectedTo m)"
  by (auto simp: verifyPaymentTransaction_def Let_def split: awaited.splits option.splits)

lemma verify_valid_adds:
  "valid (fst (verifyPaymentTransaction rpc verified txHash expectedTo m)) \<Longrightarrow>
     toLowerCase txHash \<in> snd (verifyPaymentTransaction rpc verified txHash expectedTo m)"
  by (auto simp: verifyPaymentTransaction_def Let_def invalid_def
        split: awaited.splits option.splits if_splits)

lemma verify_invalid_keeps:
  "\<not> valid (fst (verifyPaymentTransaction rpc verified txHash expectedTo m)) \<Longrightarrow>
     snd (verifyPaymentTransaction rpc verified txHash expectedTo m) = verified"
  by (auto simp: verifyPaymentTransaction_def Let_def invalid_def
        split: awaited.splits option.splits if_splits)

lemma laterAttempts_mono: "verified \<subseteq> laterAttempts attempts verified"
proof (induction attempts arbitrary: verified)
  case Nil
  then show ?case by simp
next
  case (Cons a rest)
  have "verified \<subseteq> snd (verifyPaymentTransaction (fst a) verified (fst (snd a))
                          (fst (snd (snd a))) (snd (snd (snd a))))"
    by (rule verify_mono)
  also have "\<dots> \<subseteq> laterAttempts (a # rest) verified"
    using Cons.IH by simp
  finally show ?case .
qed

text \<open>
  C3. Once a transaction reference has been verified successfully, every later
  verification of it (the same reference up to letter case, after any number of other
  verification calls) is rejected as already used, and the consumed set stays as it
  is. The rejection holds for every RPC answer, every expected recipient and every
  minimum amount: the consumed-reference test comes before the receipt is fetched and
  before status, recipient and amount are looked at.
\<close>

theorem consumed_reference_rejected:
  assumes "valid (fst (verifyPaymentTransaction rpc verified txHash expectedTo m))"
    and "toLowerCase txHash' = toLowerCase txHash"
  shows "verifyPaymentTransaction rpc'
           (laterAttempts attempts
              (snd (verifyPaymentTransaction rpc verified txHash expectedTo m)))
           txHash' expectedTo' m'
         = (invalid TransactionAlreadyUsed,
            laterAttempts attempts
              (snd (verifyPaymentTransaction rpc verified txHash expectedTo m)))"
proof -
  have "toLowerCase txHash \<in> snd (verifyPaymentTransaction rpc verified txHash expectedTo m)"
    using assms(1) by (rule verify_valid_adds)
  then have "toLowerCase txHash'
      \<in> laterAttempts attempts (snd (verifyPaymentTransaction rpc verified txHash expectedTo m))"
    using laterAttempts_mono assms(2) by fastforce
  then show ?thesis by (rule verify_used)
qed

theorem consumed_reference_rejected_witness:
  "valid (fst (verifyPaymentTransaction minedRpc {} ''0xAB'' (payTo PAYMENT_CONFIG)
                 PRICE_USDC_UNITS))
   \<and> toLowerCase ''0xab'' = toLowerCase ''0xAB''
   \<and> fst (verifyPaymentTransaction minedRpc
        (laterAttempts [(unreachableRpc, ''0xcd'', payTo PAYMENT_CONFIG, PRICE_USDC_UNITS)]
           (snd (verifyPaymentTransaction minedRpc {} ''0xAB'' (payTo PAYMENT_CONFIG)
                   PRICE_USDC_UNITS)))
        ''0xab'' (payTo PAYMENT_CONFIG) PRICE_USDC_UNITS)
     = invalid TransactionAlreadyUsed"
proof -
  have h1: "valid (fst (verifyPaymentTransaction minedRpc {} ''0xAB'' (payTo PAYMENT_CONFIG)
                          PRICE_USDC_UNITS))"
    by code_simp
  have h2: "toLowerCase ''0xab'' = toLowerCase ''0xAB''"
    by code_simp
  show ?thesis
    using consumed_reference_rejected[OF h1 h2, of minedRpc
        "[(unreachableRpc, ''0xcd'', payTo PAYMENT_CONFIG, PRICE_USDC_UNITS)]"
        "payTo PAYMENT_CONFIG" PRICE_USDC_UNITS] h1 h2
    by simp
qed

text \<open>
  C10. A verification that fails, for whatever reason (reference already used, RPC
  failure, transaction not found or not successful, no USDC transfer event, unreadable
  log data, wrong recipient, insufficient amount), leaves the set of consumed
  references as it was; so verifying the same reference again gives what it would
  have given had the failed attempt not happened, and can succeed.
\<close>

theorem failed_verification_consumes_nothing:
  assumes "\<not> valid (fst (verifyPaymentTransaction rpc verified txHash expectedTo m))"
  shows "snd (verifyPaymentTransaction rpc verified txHash expectedTo m) = verified
       \<and> verifyPaymentTransaction rpc'
            (snd (verifyPaymentTransaction rpc verified txHash expectedTo m))
            txHash expectedTo m
         = verifyPaymentTransaction rpc' verified txHash expectedTo m"
  using verify_invalid_keeps[OF assms] by simp

theorem failed_verification_consumes_nothing_witness:
  "\<not> valid (fst (verifyPaymentTransaction unreachableRpc {} ''0xAB'' (payTo PAYMENT_CONFIG)
                   PRICE_USDC_UNITS))
   \<and> snd (verifyPaymentTransaction unreachableRpc {} ''0xAB'' (payTo PAYMENT_CONFIG)
            PRICE_USDC_UNITS) = {}
   \<and> valid (fst (verifyPaymentTransaction minedRpc
        (snd (verifyPaymentTransaction unreachableRpc {} ''0xAB'' (payTo PAYMENT_CONFIG)
                PRICE_USDC_UNITS))
        ''0xAB'' (payTo PAYMENT_CONFIG) PRICE_USDC_UNITS))"
proof -
  have h: "\<not> valid (fst (verifyPaymentTransaction unreachableRpc {} ''0xAB''
                            (payTo PAYMENT_CONFIG) PRICE_USDC_UNITS))"
    by (simp add: verifyPaymentTransaction_def unreachableRpc_def invalid_def)
  have ok: "valid (fst (verifyPaymentTransaction minedRpc {} ''0xAB'' (payTo PAYMENT_CONFIG)
                          PRICE_USDC_UNITS))"
    by code_simp
  show ?thesis
    using failed_verification_consumes_nothing[OF h, of minedRpc] h ok by simp
qed

section \<open>Crediting a settlement\<close>

lemma callback_success:
  assumes "success (fst (processPaymentCallback fetch now stamp st paymentId sig config))"
  shows "\<exists>payment.
           map_of (pendingPayments st) paymentId = Some payment
         \<and> status payment = Pending
         \<and> fst (processPaymentCallback fetch now stamp st paymentId sig config)
             = verifyPayment fetch sig config
         \<and> map_of (pendingPayments
                     (snd (processPaymentCallback fetch now stamp st paymentId sig config)))
               paymentId
             = Some (payment\<lparr>status := Paid,
                               txHash_r := txHash_p (verifyPayment fetch sig config)\<rparr>)
         \<and> paymentSessions (snd (processPaymentCallback fetch now stamp st paymentId sig config))
             = (case paymentSessions st (sessionKey_r payment) of
                  None \<Rightarrow> paymentSessions st
                | Some session \<Rightarrow>
                    (paymentSessions st)(sessionKey_r payment \<mapsto>
                       session\<lparr>paidMessageCount := paidMessageCount session + 1,
                               lastPaymentTxHash := txHash_p (verifyPayment fetch sig config),
                               lastPaymentTimestamp := Some stamp,
                               pendingPaymentId := None\<rparr>))"
proof (cases "map_of (pendingPayments st) paymentId")
  case None
  with assms show ?thesis
    by (simp add: processPaymentCallback_def failure_def)
next
  case (Some payment)
  with assms have pending: "status payment = Pending"
    by (auto simp: processPaymentCallback_def failure_def split: if_splits)
  with assms Some have fresh: "\<not> now > expiresAt payment"
    by (auto simp: processPaymentCallback_def failure_def split: if_splits)
  with assms Some pending have ok: "success (verifyPayment fetch sig config)"
    by (auto simp: processPaymentCallback_def Let_def split: if_splits)
  show ?thesis
    using Some pending fresh ok
    by (auto simp: processPaymentCallback_def Let_def update_conv' split: option.splits)
qed

lemma handleMessage_verified:
  assumes "PaymentVerifiedReply a f t r
             \<in> set (fst (handleMessage rpc newId now bs chatId userIdStr text))"
  shows "paymentSessions (flow (snd (handleMessage rpc newId now bs chatId userIdStr text)))
           (''telegram:'' @ chatId @ '':'' @ userIdStr)
         = Some ((fst (getOrCreateSession (flow bs) (''telegram:'' @ chatId @ '':'' @ userIdStr)
                        ''telegram'' userIdStr))
                 \<lparr>paidMessageCount :=
                    paidMessageCount (fst (getOrCreateSession (flow bs)
                       (''telegram:'' @ chatId @ '':'' @ userIdStr) ''telegram'' userIdStr)) + 3\<rparr>)"
  using assms
  by (simp add: handleMessage_def Let_def split: if_splits)

text \<open>
  C2, as amended. When \<open>processPaymentCallback\<close> succeeds (the facilitator accepted the
  proof), the request was pending, it is now paid and carries the settlement reference,
  and the owning session, if the store has it, has \<open>paidMessageCount\<close> incremented by
  exactly 1, its last-settlement reference and time stamped and its pending-request
  reference cleared. When \<open>handleMessage\<close> reports a payment verified on chain, the
  session's \<open>paidMessageCount\<close> has been incremented by 3.
\<close>

theorem settlement_credit:
  "(success (fst (processPaymentCallback fetch now stamp st paymentId sig config)) \<longrightarrow>
      (\<exists>payment.
           map_of (pendingPayments st) paymentId = Some payment
         \<and> status payment = Pending
         \<and> fst (processPaymentCallback fetch now stamp st paymentId sig config)
             = verifyPayment fetch sig config
         \<and> map_of (pendingPayments
                     (snd (processPaymentCallback fetch now stamp st paymentId sig config)))
               paymentId
             = Some (payment\<lparr>status := Paid,
                               txHash_r := txHash_p (verifyPayment fetch sig config)\<rparr>)
         \<and> paymentSessions (snd (processPaymentCallback fetch now stamp st paymentId sig config))
             = (case paymentSessions st (sessionKey_r payment) of
                  None \<Rightarrow> paymentSessions st
                | Some session \<Rightarrow>
                    (paymentSessions st)(sessionKey_r payment \<mapsto>
                       session\<lparr>paidMessageCount := paidMessageCount session + 1,
                               lastPaymentTxHash := txHash_p (verifyPayment fetch sig config),
                               lastPaymentTimestamp := Some stamp,
                               pendingPaymentId := None\<rparr>))))
   \<and> (PaymentVerifiedReply a f t r
         \<in> set (fst (handleMessage rpc newId now' bs chatId userIdStr text)) \<longrightarrow>
       paymentSessions (flow (snd (handleMessage rpc newId now' bs chatId userIdStr text)))
           (''telegram:'' @ chatId @ '':'' @ userIdStr)
         = Some ((fst (getOrCreateSession (flow bs) (''telegram:'' @ chatId @ '':'' @ userIdStr)
                        ''telegram'' userIdStr))
                 \<lparr>paidMessageCount :=
                    paidMessageCount (fst (getOrCreateSession (flow bs)
                       (''telegram:'' @ chatId @ '':'' @ userIdStr) ''telegram'' userIdStr)) + 3\<rparr>))"
proof (intro conjI impI)
  assume "success (fst (processPaymentCallback fetch now stamp st paymentId sig config))"
  then show "\<exists>payment.
           map_of (pendingPayments st) paymentId = Some payment
         \<and> status payment = Pending
         \<and> fst (processPaymentCallback fetch now stamp st paymentId sig config)
             = verifyPayment fetch sig config
         \<and> map_of (pendingPayments
                     (snd (processPaymentCallback fetch now stamp st paymentId sig config)))
               paymentId
             = Some (payment\<lparr>status := Paid,
                               txHash_r := txHash_p (verifyPayment fetch sig config)\<rparr>)
         \<and> paymentSessions (snd (processPaymentCallback fetch now stamp st paymentId sig config))
             = (case paymentSessions st (sessionKey_r payment) of
                  None \<Rightarrow> paymentSessions st
                | Some session \<Rightarrow>
                    (paymentSessions st)(sessionKey_r payment \<mapsto>
                       session\<lparr>paidMessageCount := paidMessageCount session + 1,
                               lastPaymentTxHash := txHash_p (verifyPayment fetch sig config),
                               lastPaymentTimestamp := Some stamp,
                               pendingPaymentId := None\<rparr>))"
    by (rule callback_success)
next
  assume "PaymentVerifiedReply a f t r
            \<in> set (fst (handleMessage rpc newId now' bs chatId userIdStr text))"
  then show "paymentSessions (flow (snd (handleMessage rpc newId now' bs chatId userIdStr text)))
           (''telegram:'' @ chatId @ '':'' @ userIdStr)
         = Some ((fst (getOrCreateSession (flow bs) (''telegram:'' @ chatId @ '':'' @ userIdStr)
                        ''telegram'' userIdStr))
                 \<lparr>paidMessageCount :=
                    paidMessageCount (fst (getOrCreateSession (flow bs)
                       (''telegram:'' @ chatId @ '':'' @ userIdStr) ''telegram'' userIdStr)) + 3\<rparr>)"
    by (rule handleMessage_verified)
qed

theorem settlement_credit_witness:
  "success (fst (processPaymentCallback acceptingFacilitator 5000 5001 sampleFlow ''pay_1''
                   ''sig'' PAYMENT_CONFIG))
   \<and> PaymentVerifiedReply (Some 10000) (Some ''0x1111111111111111111111111111111111111111'')
        ''0xab'' (Num 3)
       \<in> set (fst (handleMessage minedRpc ''pay_2'' 5000
                      \<lparr>flow = sampleFlow, verifiedTxHashes = {}\<rparr> ''1'' ''2''
                      ''/x402 paid 0xAB''))
   \<and> paymentSessions (flow (snd (handleMessage minedRpc ''pay_2'' 5000
                      \<lparr>flow = sampleFlow, verifiedTxHashes = {}\<rparr> ''1'' ''2''
                      ''/x402 paid 0xAB''))) ''telegram:1:2''
       = Some (sampleSession\<lparr>paidMessageCount := 3\<rparr>)
   \<and> (\<exists>payment. map_of (pendingPayments (snd (processPaymentCallback acceptingFacilitator
                      5000 5001 sampleFlow ''pay_1'' ''sig'' PAYMENT_CONFIG))) ''pay_1''
                    = Some payment \<and> status payment = Paid)"
proof -
  have h1: "success (fst (processPaymentCallback acceptingFacilitator 5000 5001 sampleFlow
                            ''pay_1'' ''sig'' PAYMENT_CONFIG))"
    by code_simp
  have h2: "PaymentVerifiedReply (Some 10000)
              (Some ''0x1111111111111111111111111111111111111111'') ''0xab'' (Num 3)
       \<in> set (fst (handleMessage minedRpc ''pay_2'' 5000
                      \<lparr>flow = sampleFlow, verifiedTxHashes = {}\<rparr> ''1'' ''2''
                      ''/x402 paid 0xAB''))"
    by code_simp
  have session: "fst (getOrCreateSession sampleFlow ''telegram:1:2'' ''telegram'' ''2'')
                   = sampleSession"
    by (simp add: getOrCreateSession_def sampleFlow_def)
  have paid: "paidMessageCount sampleSession = 0"
    by (simp add: sampleSession_def)
  note both = settlement_credit[of acceptingFacilitator 5000 5001 sampleFlow "''pay_1''"
        "''sig''" PAYMENT_CONFIG "Some 10000"
        "Some ''0x1111111111111111111111111111111111111111''" "''0xab''" "Num 3" minedRpc
        "''pay_2''" 5000 "\<lparr>flow = sampleFlow, verifiedTxHashes = {}\<rparr>" "''1''" "''2''"
        "''/x402 paid 0xAB''"]
  from both h1 obtain payment where
    "map_of (pendingPayments (snd (processPaymentCallback acceptingFacilitator
                      5000 5001 sampleFlow ''pay_1'' ''sig'' PAYMENT_CONFIG))) ''pay_1''
       = Some (payment\<lparr>status := Paid,
            txHash_r := txHash_p (verifyPayment acceptingFacilitator ''sig'' PAYMENT_CONFIG)\<rparr>)"
    by blast
  then have request: "\<exists>payment. map_of (pendingPayments (snd (processPaymentCallback
                      acceptingFacilitator 5000 5001 sampleFlow ''pay_1'' ''sig''
                      PAYMENT_CONFIG))) ''pay_1''
                    = Some payment \<and> status payment = Paid"
    by simp
  from both h2 have credited:
    "paymentSessions (flow (snd (handleMessage minedRpc ''pay_2'' 5000
                      \<lparr>flow = sampleFlow, verifiedTxHashes = {}\<rparr> ''1'' ''2''
                      ''/x402 paid 0xAB''))) ''telegram:1:2''
       = Some (sampleSession\<lparr>paidMessageCount := 3\<rparr>)"
    by (simp add: session paid)
  show ?thesis
    using h1 h2 credited request by blast
qed

text \<open>
  C2 as stated fails on the direct path: a successful on-chain verification takes the
  session's \<open>paidMessageCount\<close> from 0 to 3, not to 1.
\<close>

theorem direct_settlement_credits_three_counterexample:
  "fst (handleMessage minedRpc ''pay_2'' 5000 \<lparr>flow = sampleFlow, verifiedTxHashes = {}\<rparr>
          ''1'' ''2'' ''/x402 paid 0xAB'')
     = [VerifyingReply,
        PaymentVerifiedReply (Some 10000) (Some ''0x1111111111111111111111111111111111111111'')
          ''0xab'' (Num 3)]
   \<and> map_option paidMessageCount (paymentSessions sampleFlow ''telegram:1:2'') = Some 0
   \<and> map_option paidMessageCount
        (paymentSessions (flow (snd (handleMessage minedRpc ''pay_2'' 5000
           \<lparr>flow = sampleFlow, verifiedTxHashes = {}\<rparr> ''1'' ''2'' ''/x402 paid 0xAB'')))
           ''telegram:1:2'') = Some 3
   \<and> (3::int) \<noteq> 0 + 1"
  by code_simp

section \<open>The ceiling of a delegated authorization\<close>

lemma processPayment_split:
  "processPayment config env auths request =
     resumeCharge config env auths request (processPayment_begin config env auths request)"
  by (auto simp: processPayment_def processPayment_begin_def processPayment_resume_def
        resumeCharge_def checkAuthorization_def Let_def refused_def
        split: option.splits awaited.splits)









section \<open>Two charges against one authorization\<close>

text \<open>
  C7, as amended. Take an authorization with remaining balance 10 that is not expired,
  a per-transaction ceiling of at least 6 and on-chain allowances that cover 6, and two
  calls of \<open>processPayment\<close> requesting 6 each. When the second call starts after the
  first has returned, the first succeeds (remaining balance 4) and the second fails with
  the insufficient-balance reason (remaining 4). When both calls run up to the awaited
  on-chain read before either resumes, both succeed and \<open>spentAmount\<close> grows by 12: the
  balance test and the increment are not one atomic step.
\<close>

theorem two_charges_of_six_against_ten:
  assumes "auths (getUserKey (userId_q request) (userAddress_q request)) = Some auth"
    and "authorizedAmount auth - spentAmount auth = 10"
    and "amount request = 6"
    and "maxPaymentAmount config = Some ceiling" and "6 \<le> ceiling"
    and "dateNow envA div 1000 < expiresAt_a auth"
    and "dateNow envB div 1000 < expiresAt_a auth"
    and "checkApprovalStatus (chainReads envA) (chainDateNow envA) (userAddress_q request)
           (spenderAddress config) 6 = Resolved onChainA"
    and "\<not> needsApproval onChainA" and "\<not> needsPermit2Allowance onChainA"
    and "checkApprovalStatus (chainReads envB) (chainDateNow envB) (userAddress_q request)
           (spenderAddress config) 6 = Resolved onChainB"
    and "\<not> needsApproval onChainB" and "\<not> needsPermit2Allowance onChainB"
  shows "twoChargesInSequence config envA envB auths request request =
           ((Resolved \<lparr> success_q = True, txHash_q = Some (''0x'' @ simulatedTxHash envA),
                         error_q = None, remainingBalance_q = Some 4 \<rparr>,
             Resolved (refused (NotAuthorized (InsufficientAuthorizedBalance 4)))),
            auths(getUserKey (userId_q request) (userAddress_q request) \<mapsto>
                    auth\<lparr>spentAmount := spentAmount auth + 6\<rparr>))
       \<and> twoChargesInterleaved config envA envB auths request request =
           ((Resolved \<lparr> success_q = True, txHash_q = Some (''0x'' @ simulatedTxHash envA),
                         error_q = None, remainingBalance_q = Some 4 \<rparr>,
             Resolved \<lparr> success_q = True, txHash_q = Some (''0x'' @ simulatedTxHash envB),
                         error_q = None, remainingBalance_q = Some (- 2) \<rparr>),
            auths(getUserKey (userId_q request) (userAddress_q request) \<mapsto>
                    auth\<lparr>spentAmount := spentAmount auth + 12\<rparr>))"
proof -
  let ?key = "getUserKey (userId_q request) (userAddress_q request)"
  let ?auth1 = "auth\<lparr>spentAmount := spentAmount auth + 6\<rparr>"
  have begin1: "processPayment_begin config envA auths request = ChargeAwaiting 10"
    using assms by (simp add: processPayment_begin_def Let_def)
  have begin2: "processPayment_begin config envB auths request = ChargeAwaiting 10"
    using assms by (simp add: processPayment_begin_def Let_def)
  have resume1: "processPayment_resume config envA auths request 10 =
      (Resolved \<lparr> success_q = True, txHash_q = Some (''0x'' @ simulatedTxHash envA),
                   error_q = None, remainingBalance_q = Some 4 \<rparr>, auths(?key \<mapsto> ?auth1))"
    using assms by (simp add: processPayment_resume_def Let_def)
  have resume2: "processPayment_resume config envB (auths(?key \<mapsto> ?auth1)) request 10 =
      (Resolved \<lparr> success_q = True, txHash_q = Some (''0x'' @ simulatedTxHash envB),
                   error_q = None, remainingBalance_q = Some (- 2) \<rparr>,
       auths(?key \<mapsto> auth\<lparr>spentAmount := spentAmount auth + 12\<rparr>))"
    using assms by (simp add: processPayment_resume_def Let_def add.commute)
  have left: "authorizedAmount auth - (spentAmount auth + 6) = 4"
    using assms(2) by arith
  have begin2': "processPayment_begin config envB (auths(?key \<mapsto> ?auth1)) request =
      ChargeDone (refused (NotAuthorized (InsufficientAuthorizedBalance 4)))"
    using assms(1,3-) by (simp add: processPayment_begin_def Let_def left)
  have seq: "twoChargesInSequence config envA envB auths request request =
           ((Resolved \<lparr> success_q = True, txHash_q = Some (''0x'' @ simulatedTxHash envA),
                         error_q = None, remainingBalance_q = Some 4 \<rparr>,
             Resolved (refused (NotAuthorized (InsufficientAuthorizedBalance 4)))),
            auths(?key \<mapsto> ?auth1))"
    by (simp add: twoChargesInSequence_def Let_def processPayment_split begin1 resume1 begin2'
          resumeCharge_def)
  have inter: "twoChargesInterleaved config envA envB auths request request =
           ((Resolved \<lparr> success_q = True, txHash_q = Some (''0x'' @ simulatedTxHash envA),
                         error_q = None, remainingBalance_q = Some 4 \<rparr>,
             Resolved \<lparr> success_q = True, txHash_q = Some (''0x'' @ simulatedTxHash envB),
                         error_q = None, remainingBalance_q = Some (- 2) \<rparr>),
            auths(?key \<mapsto> auth\<lparr>spentAmount := spentAmount auth + 12\<rparr>))"
    by (simp add: twoChargesInterleaved_def Let_def begin1 begin2 resume1 resume2
          resumeCharge_def)
  show ?thesis using seq inter by simp
qed

theorem two_charges_of_six_against_ten_witness:
  "sampleAuths (getUserKey (userId_q sampleCharge) (userAddress_q sampleCharge)) =
       Some \<lparr> userAddress = ''0xAA'', permitSignature = None, permit = None,
              authorizedAmount = 10, spentAmount = 0, expiresAt_a = 2000, createdAt_a = 0 \<rparr>
   \<and> amount sampleCharge = 6
   \<and> maxPaymentAmount sampleProcessor = Some 100000000
   \<and> dateNow sampleCallEnv div 1000 < 2000
   \<and> checkApprovalStatus (chainReads sampleCallEnv) (chainDateNow sampleCallEnv)
        (userAddress_q sampleCharge) (spenderAddress sampleProcessor) 6 =
       Resolved \<lparr> hasTokenApproval = True, hasPermit2Allowance = True, allowanceAmount = 100,
                  allowanceExpiration = 5000, needsApproval = False,
                  needsPermit2Allowance = False \<rparr>
   \<and> fst (twoChargesInSequence sampleProcessor sampleCallEnv sampleCallEnv sampleAuths
            sampleCharge sampleCharge) =
       (Resolved \<lparr> success_q = True, txHash_q = Some ''0xab'', error_q = None,
                    remainingBalance_q = Some 4 \<rparr>,
        Resolved (refused (NotAuthorized (InsufficientAuthorizedBalance 4))))"
proof -
  let ?auth = "\<lparr> userAddress = ''0xAA'', permitSignature = None, permit = None,
              authorizedAmount = 10, spentAmount = 0, expiresAt_a = 2000, createdAt_a = 0 \<rparr>"
  let ?onChain = "\<lparr> hasTokenApproval = True, hasPermit2Allowance = True,
                  allowanceAmount = 100, allowanceExpiration = 5000, needsApproval = False,
                  needsPermit2Allowance = False \<rparr>"
  have h1: "sampleAuths (getUserKey (userId_q sampleCharge) (userAddress_q sampleCharge)) =
              Some ?auth"
    by (simp add: sampleAuths_def registerAuthorization_def sampleCharge_def)
  have h2: "authorizedAmount ?auth - spentAmount ?auth = 10" by simp
  have h3: "amount sampleCharge = 6" by (simp add: sampleCharge_def)
  have h4: "maxPaymentAmount sampleProcessor = Some 100000000"
    by (simp add: sampleProcessor_def AutoPaymentProcessor_def)
  have h5: "(6::int) \<le> 100000000" by simp
  have h6: "dateNow sampleCallEnv div 1000 < expiresAt_a ?auth"
    by (simp add: sampleCallEnv_def)
  have h7: "checkApprovalStatus (chainReads sampleCallEnv) (chainDateNow sampleCallEnv)
        (userAddress_q sampleCharge) (spenderAddress sampleProcessor) 6 = Resolved ?onChain"
    by (simp add: checkApprovalStatus_def sampleCallEnv_def Let_def)
  have h8: "\<not> needsApproval ?onChain" "\<not> needsPermit2Allowance ?onChain" by simp_all
  have hash: "simulatedTxHash sampleCallEnv = ''ab''" by (simp add: sampleCallEnv_def)
  show ?thesis
    using two_charges_of_six_against_ten[where auths = sampleAuths and request = sampleCharge
        and auth = ?auth and config = sampleProcessor and ceiling = 100000000
        and envA = sampleCallEnv and envB = sampleCallEnv and onChainA = ?onChain
        and onChainB = ?onChain, OF h1 h2 h3 h4 h5 h6 h6 h7 h8 h7 h8] h1 h3 h4 h6 h7 hash
    by simp
qed

text \<open>
  C7 as stated fails: with remaining balance 10 and two calls requesting 6 that both
  reach the awaited on-chain read before either resumes, both calls succeed and the
  authorization ends with 12 spent of 10 authorized.
\<close>

theorem concurrent_charges_both_succeed_counterexample:
  "fst (twoChargesInterleaved sampleProcessor sampleCallEnv sampleCallEnv sampleAuths
          sampleCharge sampleCharge) =
     (Resolved \<lparr> success_q = True, txHash_q = Some ''0xab'', error_q = None,
                  remainingBalance_q = Some 4 \<rparr>,
      Resolved \<lparr> success_q = True, txHash_q = Some ''0xab'', error_q = None,
                  remainingBalance_q = Some (- 2) \<rparr>)
   \<and> map_option (\<lambda>a. (authorizedAmount a, spentAmount a))
        (snd (twoChargesInterleaved sampleProcessor sampleCallEnv sampleCallEnv sampleAuths
                sampleCharge sampleCharge) (getUserKey ''alice'' ''0xAA'')) = Some (10, 12)"
  by code_simp

section \<open>Resolving the configuration\<close>

text \<open>
  C9 fails on the code. With no \<open>X402_*\<close> variable in the environment and plugin
  settings that enable metering on Base Mainnet with a receiving address and a quota of
  5, \<open>resolveConfig\<close> returns \<open>enabled = false\<close> and \<open>undefined\<close> for every other field:
  the object built by \<open>loadConfigFromEnv\<close> has every property, holding \<open>undefined\<close> for
  an unset variable and \<open>false\<close> for an unset \<open>X402_ENABLED\<close>, and the spread lets these
  replace the settings and the defaults.
\<close>

theorem resolveConfig_unset_env_overrides:
  "resolveConfig noEnv (Some samplePlugin) =
     \<lparr> enabled_o = Present False, network_o = Undefined, payTo_o = Undefined,
       pricePerMessage_o = Undefined, facilitatorUrl_o = Undefined,
       privateKey_o = Undefined, freeMessagesPerSession_o = Undefined,
       telegramPaymentBotUrl_o = Undefined \<rparr>"
  by (simp add: resolveConfig_def loadConfigFromEnv_def spread_def over_def orUndefined_def
        noEnv_def)

end
